theory Spec2Isabelle
  imports Main
begin

section \<open>Python strings\<close>

text \<open>
  A Python \<open>str\<close> is modelled as a \<open>string\<close> whose characters are the code points
  U+0000 to U+00FF; \<open>length\<close> counts code points as Python's \<open>len\<close> does.
  \<open>str.lower\<close>, \<open>str.strip\<close> and \<open>str.startswith\<close> are written out for
  that range.
\<close>

definition isspace :: "char \<Rightarrow> bool" where
  "isspace c = (let n = (of_char c :: nat) in
     (9 \<le> n \<and> n \<le> 13) \<or> (28 \<le> n \<and> n \<le> 32) \<or> n = 133 \<or> n = 160)"

definition lower_char :: "char \<Rightarrow> char" where
  "lower_char c = (let n = (of_char c :: nat) in
     if (65 \<le> n \<and> n \<le> 90) \<or> (192 \<le> n \<and> n \<le> 222 \<and> n \<noteq> 215)
     then char_of (n + 32) else c)"

definition lower :: "string \<Rightarrow> string" where
  "lower s = map lower_char s"

definition strip :: "string \<Rightarrow> string" where
  "strip s = rev (dropWhile isspace (rev (dropWhile isspace s)))"

definition startswith :: "string \<Rightarrow> string \<Rightarrow> bool" where
  "startswith s p = (take (length p) s = p)"

text \<open>The slice \<open>xs[i:]\<close>: a negative \<open>i\<close> counts from the end, and both ends clamp.\<close>

definition slice_from :: "int \<Rightarrow> 'a list \<Rightarrow> 'a list" where
  "slice_from i xs =
     (if i < 0 then drop (nat (int (length xs) + i)) xs else drop (nat i) xs)"

section \<open>Exceptions and outcomes\<close>

text \<open>
  \<open>except Exception\<close> catches the subclasses of \<open>Exception\<close> only; cancellation and
  keyboard interrupts derive from \<open>BaseException\<close> and pass through it.
\<close>

datatype exn_class =
  RuntimeError | TypeError | TimeoutError | OtherException | CancelledError | KeyboardInterrupt

datatype exn = Exn (cls: exn_class) (str: string)

fun is_Exception :: "exn \<Rightarrow> bool" where
  "is_Exception (Exn CancelledError _) = False"
| "is_Exception (Exn KeyboardInterrupt _) = False"
| "is_Exception (Exn _ _) = True"

datatype 'a outcome = Returned 'a | Raised exn

fun returned :: "'a outcome \<Rightarrow> 'a option" where
  "returned (Returned x) = Some x"
| "returned (Raised e) = None"

section \<open>Messages, stream chunks and the agent\<close>

datatype tool_call = ToolCall (call_name: string) (call_args: string)

datatype message =
  HumanMessage string
| AIMessage string "tool_call list"
| ToolMessage string string

fun content :: "message \<Rightarrow> string" where
  "content (HumanMessage c) = c"
| "content (AIMessage c tcs) = c"
| "content (ToolMessage n c) = c"

text \<open>
  A chunk of \<open>agent.astream\<close> is a dict from node name to node output; the model keeps
  its items in order, each with the value of \<open>node_output.get("messages", [])\<close>.
  The stream yields its chunks and then either ends or raises.
\<close>

type_synonym chunk = "(string \<times> message list) list"

datatype astream = AStream (yielded: "chunk list") (raised: "exn option")

type_synonym Agent = "message list \<Rightarrow> astream"

datatype Tool = Tool (tool_name: string) (description: string)

section \<open>Conversation memory\<close>

text \<open>
  Modelled from the spec: the class \<open>ConversationBufferWindowMemory\<close> that
  \<open>MCPClient.connect\<close> instantiates with \<open>k = memory_window_size\<close> is library code and
  is not under \<open>src/\<close>. The definitions below follow the spec's ConversationMemory: an
  ordered sequence of exchanges of capacity \<open>W\<close>, whose \<open>append\<close> enforces the bound of
  \<open>2 * W\<close> by evicting the oldest pair. \<open>save_context\<close> appends the user exchange and
  then the assistant exchange; \<open>buffer\<close> reads the sequence as messages, oldest first.
\<close>

datatype role = user | assistant

datatype Exchange = Exchange role string

record ConversationMemory =
  capacity :: int
  exchanges :: "Exchange list"

definition new_memory :: "int \<Rightarrow> ConversationMemory" where
  "new_memory W = \<lparr>capacity = W, exchanges = []\<rparr>"

definition append :: "Exchange \<Rightarrow> ConversationMemory \<Rightarrow> ConversationMemory" where
  "append x m =
     (let xs = exchanges m @ [x]
      in m\<lparr>exchanges := (if int (length xs) > 2 * capacity m then drop 2 xs else xs)\<rparr>)"

definition save_context :: "string \<Rightarrow> string \<Rightarrow> ConversationMemory \<Rightarrow> ConversationMemory" where
  "save_context inp outp m = append (Exchange assistant outp) (append (Exchange user inp) m)"

fun as_message :: "Exchange \<Rightarrow> message" where
  "as_message (Exchange user c) = HumanMessage c"
| "as_message (Exchange assistant c) = AIMessage c []"

definition buffer :: "ConversationMemory \<Rightarrow> message list" where
  "buffer m = map as_message (exchanges m)"

section \<open>The client\<close>

record ClientConfig =
  groq_api_key :: string
  groq_model :: string
  mcp_url :: string
  max_iterations :: int
  agent_timeout :: int
  memory_window_size :: int
  connect_timeout :: int
  verbose :: bool

record MCPClient =
  config :: ClientConfig
  llm_base :: "string option"
  llm :: "string option"
  mcp :: "string option"
  agent :: "Agent option"
  memory :: "ConversationMemory option"
  tools :: "Tool list"

text \<open>\<open>MCPClient.__init__\<close>\<close>

definition init :: "ClientConfig \<Rightarrow> MCPClient" where
  "init cfg = \<lparr>config = cfg, llm_base = None, llm = None, mcp = None, agent = None,
     memory = None, tools = []\<rparr>"

subsection \<open>\<open>MCPClient.query\<close>\<close>

datatype step = Step (tool: string) (result: string)

datatype query_status = success | error

datatype QueryResult =
  Success (response: string) (intermediate_steps: "step list")
| Error (message: string)

fun status :: "QueryResult \<Rightarrow> query_status" where
  "status (Success r steps) = success"
| "status (Error m) = error"

definition greetings :: "string set" where
  "greetings = {''hi'', ''hello'', ''hey'', ''hi there''}"

definition greeting_response :: string where
  "greeting_response =
     ''Hello! I'' @ [CHR 0x27] @ ''m your Assistant. I can help you search the internet, '' @
     ''get the current time, perform calculations, and more. '' @
     ''What would you like to know?''"

text \<open>
  The trace entries of the messages of one \<open>tools\<close> node: one entry per
  \<open>ToolMessage\<close>, holding \<open>str(msg.content)[:200]\<close>.
\<close>

fun tool_steps :: "message list \<Rightarrow> step list" where
  "tool_steps [] = []"
| "tool_steps (ToolMessage n c # ms) = Step n (take 200 c) # tool_steps ms"
| "tool_steps (m # ms) = tool_steps ms"

text \<open>
  The body of the loop over \<open>chunk.items()\<close>, on the pair
  \<open>(final_messages, intermediate_steps)\<close>.
\<close>

fun process_node :: "string \<times> message list \<Rightarrow> message list \<times> step list
    \<Rightarrow> message list \<times> step list" where
  "process_node (node_name, msgs) (final_messages, steps) =
     (if node_name = ''agent'' then (final_messages @ msgs, steps)
      else if startswith node_name ''tools''
        then (final_messages @ msgs, steps @ tool_steps msgs)
      else (final_messages, steps))"

fun process_chunk :: "chunk \<Rightarrow> message list \<times> step list \<Rightarrow> message list \<times> step list" where
  "process_chunk [] acc = acc"
| "process_chunk (item # items) acc = process_chunk items (process_node item acc)"

text \<open>The \<open>async for\<close> loop: a chunk is looked at only when \<open>config.verbose\<close> is set.\<close>

fun consume :: "bool \<Rightarrow> chunk list \<Rightarrow> message list \<times> step list
    \<Rightarrow> message list \<times> step list" where
  "consume v [] acc = acc"
| "consume v (chunk # chunks) acc =
     consume v chunks (if v then process_chunk chunk acc else acc)"

text \<open>
  The loop over \<open>reversed(final_messages)\<close>, given the reversed list: tool-calling
  AI messages and other messages are skipped, the first remaining AI message ends the loop.
\<close>

fun last_ai_text :: "message list \<Rightarrow> string" where
  "last_ai_text [] = ''''"
| "last_ai_text (AIMessage c tcs # ms) = (if tcs \<noteq> [] then last_ai_text ms else c)"
| "last_ai_text (m # ms) = last_ai_text ms"

definition extract_response :: "message list \<Rightarrow> string" where
  "extract_response final_messages =
     (if final_messages \<noteq> [] then
        (let response_text = last_ai_text (rev final_messages)
         in if response_text = '''' then content (last final_messages) else response_text)
      else '''')"

text \<open>The \<open>except Exception\<close> handler of \<open>query\<close>.\<close>

definition query_failed :: "exn \<Rightarrow> MCPClient \<Rightarrow> QueryResult outcome \<times> MCPClient" where
  "query_failed e self =
     (if is_Exception e then (Returned (Error (''Query failed: '' @ str e)), self)
      else (Raised e, self))"

definition build_messages :: "MCPClient \<Rightarrow> string \<Rightarrow> message list" where
  "build_messages self q =
     (case memory self of
        None \<Rightarrow> []
      | Some m \<Rightarrow>
          if buffer m \<noteq> []
          then slice_from (- memory_window_size (config self)) (buffer m) else [])
     @ [HumanMessage q]"

definition query :: "MCPClient \<Rightarrow> string \<Rightarrow> QueryResult outcome \<times> MCPClient" where
  "query self q =
     (case agent self of
        None \<Rightarrow> (Raised (Exn RuntimeError ''Client not connected. Call connect() first.''), self)
      | Some ag \<Rightarrow>
          if strip (lower q) \<in> greetings
          then (Returned (Success greeting_response []), self)
          else
            (case ag (build_messages self q) of
               AStream chunks (Some e) \<Rightarrow> query_failed e self
             | AStream chunks None \<Rightarrow>
                 (let (final_messages, steps) = consume (verbose (config self)) chunks ([], []);
                      response_text = extract_response final_messages
                  in (Returned (Success response_text steps),
                      self\<lparr>memory := map_option (save_context q response_text) (memory self)\<rparr>))))"

text \<open>A run of calls to \<open>query\<close> on the same client, one after the other.\<close>

fun queries :: "MCPClient \<Rightarrow> string list \<Rightarrow> MCPClient" where
  "queries self [] = self"
| "queries self (q # qs) = queries (snd (query self q)) qs"

text \<open>
  The exchanges that a run of calls hands to the memory, in order: the query and the
  response of every call that returned a success past the greeting guard.
\<close>

fun transcript :: "MCPClient \<Rightarrow> string list \<Rightarrow> Exchange list" where
  "transcript self [] = []"
| "transcript self (q # qs) =
     (case fst (query self q) of
        Returned (Success resp steps) \<Rightarrow>
          if strip (lower q) \<in> greetings then []
          else [Exchange user q, Exchange assistant resp]
      | Returned (Error msg) \<Rightarrow> []
      | Raised e \<Rightarrow> [])
     @ transcript (snd (query self q)) qs"

text \<open>The \<open>k\<close> most recent elements of a sequence.\<close>

definition recent :: "nat \<Rightarrow> 'a list \<Rightarrow> 'a list" where
  "recent k xs = drop (length xs - k) xs"

subsection \<open>\<open>MCPClient.connect\<close>\<close>

text \<open>
  The collaborators of \<open>connect\<close>: what \<open>mcp.start()\<close> under its timeout does
  (\<open>None\<close> when it returns in time or the attribute is absent), what
  \<open>mcp.get_tools()\<close> under its timeout does, and \<open>create_react_agent\<close>, called with
  the system prompt under one of three keyword names.
\<close>

datatype modifier = messages_modifier | state_modifier | prompt

record Env =
  mcp_start :: "exn option"
  mcp_get_tools :: "exn + Tool list"
  create_react_agent :: "modifier \<Rightarrow> Tool list \<Rightarrow> exn + Agent"

text \<open>The nested \<open>try\<close>/\<open>except TypeError\<close> around \<open>create_react_agent\<close>.\<close>

definition build_agent :: "Env \<Rightarrow> Tool list \<Rightarrow> exn + Agent" where
  "build_agent env ts =
     (case create_react_agent env messages_modifier ts of
        Inr a \<Rightarrow> Inr a
      | Inl e \<Rightarrow>
          if cls e = TypeError then
            (case create_react_agent env state_modifier ts of
               Inr a \<Rightarrow> Inr a
             | Inl e' \<Rightarrow>
                 if cls e' = TypeError then create_react_agent env prompt ts else Inl e')
          else Inl e)"

text \<open>The \<open>try\<close> block of \<open>connect\<close>.\<close>

definition connect_try :: "Env \<Rightarrow> MCPClient \<Rightarrow> unit outcome \<times> MCPClient" where
  "connect_try env self =
     (if groq_api_key (config self) = '''' then
        (Raised (Exn RuntimeError
           ''GROQ_API_KEY is missing. Set environment variable GROQ_API_KEY.''), self)
      else
        (let s1 = self\<lparr>llm_base := Some (groq_model (config self)),
                       memory := Some (new_memory (memory_window_size (config self))),
                       mcp := Some (mcp_url (config self))\<rparr>
         in case mcp_start env of
              Some e \<Rightarrow> (Raised e, s1)
            | None \<Rightarrow>
                (case mcp_get_tools env of
                   Inl e \<Rightarrow> (Raised e, s1)
                 | Inr base_tools \<Rightarrow>
                     (let s2 = s1\<lparr>tools := base_tools, llm := llm_base s1\<rparr>
                      in case build_agent env base_tools of
                           Inl e \<Rightarrow> (Raised e, s2)
                         | Inr a \<Rightarrow> (Returned (), s2\<lparr>agent := Some a\<rparr>)))))"

definition connect :: "Env \<Rightarrow> MCPClient \<Rightarrow> unit outcome \<times> MCPClient" where
  "connect env self =
     (case connect_try env self of
        (Returned u, s) \<Rightarrow> (Returned u, s)
      | (Raised e, s) \<Rightarrow>
          if is_Exception e
          then (Raised (Exn RuntimeError (''Failed to connect client: '' @ str e)), s)
          else (Raised e, s))"

section \<open>Reading a stream\<close>

text \<open>
  The events of a stream, for stating what \<open>query\<close> makes of them: the messages of its
  \<open>agent\<close> and \<open>tools\<close> nodes in stream order, the name and raw content of each
  tool message of a \<open>tools\<close> node, and the texts of the agent turns that request no tool.
\<close>

fun node_events :: "string \<times> message list \<Rightarrow> message list" where
  "node_events (node_name, msgs) =
     (if node_name = ''agent'' \<or> startswith node_name ''tools'' then msgs else [])"

definition events :: "chunk list \<Rightarrow> message list" where
  "events chunks = concat (map node_events (concat chunks))"

fun tool_messages :: "message list \<Rightarrow> (string \<times> string) list" where
  "tool_messages [] = []"
| "tool_messages (ToolMessage n c # ms) = (n, c) # tool_messages ms"
| "tool_messages (m # ms) = tool_messages ms"

fun node_results :: "string \<times> message list \<Rightarrow> (string \<times> string) list" where
  "node_results (node_name, msgs) =
     (if startswith node_name ''tools'' then tool_messages msgs else [])"

definition tool_results :: "chunk list \<Rightarrow> (string \<times> string) list" where
  "tool_results chunks = concat (map node_results (concat chunks))"

fun final_texts :: "message list \<Rightarrow> string list" where
  "final_texts [] = []"
| "final_texts (AIMessage c tcs # ms) =
     (if tcs = [] then c # final_texts ms else final_texts ms)"
| "final_texts (m # ms) = final_texts ms"

section \<open>Sample clients and streams\<close>

definition sample_config :: ClientConfig where
  "sample_config = \<lparr>groq_api_key = ''gsk'', groq_model = ''llama-3.3-70b-versatile'',
     mcp_url = ''http://127.0.0.1:8000/mcp'', max_iterations = 6, agent_timeout = 90,
     memory_window_size = 8, connect_timeout = 12, verbose = True\<rparr>"

definition sample_tools :: "Tool list" where
  "sample_tools = [Tool ''get_time'' ''clock'', Tool ''calculate'' ''arithmetic'',
     Tool ''web_search'' ''search'']"

text \<open>An agent whose stream yields the given chunks and ends, and one whose stream raises.\<close>

definition replay :: "chunk list \<Rightarrow> Agent" where
  "replay chunks = (\<lambda>msgs. AStream chunks None)"

definition failing :: "exn \<Rightarrow> Agent" where
  "failing e = (\<lambda>msgs. AStream [] (Some e))"

definition sample_env :: "Agent \<Rightarrow> Env" where
  "sample_env ag = \<lparr>mcp_start = None, mcp_get_tools = Inr sample_tools,
     create_react_agent = (\<lambda>kw ts. Inr ag)\<rparr>"

text \<open>A stream of three events: an agent turn, a tool result, an agent turn.\<close>

definition last_wins_chunks :: "chunk list" where
  "last_wins_chunks =
     [ [(''agent'', [AIMessage ''A'' []])],
      [(''tools'', [ToolMessage ''get_time'' ''12:00''])],
      [(''agent'', [AIMessage ''B'' []])] ]"

text \<open>The same stream with an empty text in its last agent turn.\<close>

definition empty_last_turn_chunks :: "chunk list" where
  "empty_last_turn_chunks =
     [ [(''agent'', [AIMessage ''A'' []])],
      [(''tools'', [ToolMessage ''get_time'' ''12:00''])],
      [(''agent'', [AIMessage '''' []])] ]"

text \<open>
  A stream whose latest agent turn without tool requests has an empty text and is followed
  by a tool result.
\<close>

definition empty_turn_then_tool_chunks :: "chunk list" where
  "empty_turn_then_tool_chunks =
     [ [(''agent'', [AIMessage ''A'' []])],
      [(''agent'', [AIMessage '''' []])],
      [(''tools'', [ToolMessage ''get_time'' ''12:00''])] ]"

text \<open>A stream of one tool result of 201 characters.\<close>

definition long_result_chunks :: "chunk list" where
  "long_result_chunks =
     [ [(''tools'', [ToolMessage ''web_search'' (replicate 201 (CHR ''x''))])] ]"

text \<open>A stream that ends in a tool result: a tool-calling agent turn, then the result.\<close>

definition tool_last_chunks :: "chunk list" where
  "tool_last_chunks =
     [ [(''agent'', [AIMessage '''' [ToolCall ''get_time'' ''{}'']])],
      [(''tools'', [ToolMessage ''get_time'' ''12:00''])] ]"

text \<open>The client as a successful \<open>connect\<close> leaves it.\<close>

definition connected :: "ClientConfig \<Rightarrow> Agent \<Rightarrow> MCPClient" where
  "connected cfg ag = \<lparr>config = cfg, llm_base = Some (groq_model cfg),
     llm = Some (groq_model cfg), mcp = Some (mcp_url cfg), agent = Some ag,
     memory = Some (new_memory (memory_window_size cfg)), tools = sample_tools\<rparr>"

text \<open>A connected client after one earlier question and answer.\<close>

definition with_history :: "MCPClient \<Rightarrow> MCPClient" where
  "with_history self = self\<lparr>memory := Some \<lparr>capacity = memory_window_size (config self),
     exchanges = [Exchange user ''2+2?'', Exchange assistant ''4'']\<rparr>\<rparr>"

section \<open>Basic facts\<close>

lemma sample_texts_lower:
  "strip (lower ''hi'') = ''hi''"
  "strip (lower ''Hello'') = ''hello''"
  "strip (lower ''  HEY  '') = ''hey''"
  "strip (lower ''what time is it'') = ''what time is it''"
  by code_simp+

lemma sample_texts_more: "strip (lower ''and now'') = ''and now''"
  by code_simp

lemma sample_text_not_greeting: "strip (lower ''what time is it'') \<notin> greetings"
  by (simp add: sample_texts_lower greetings_def)

lemma consume_quiet: "consume False chunks acc = acc"
  by (induction chunks arbitrary: acc) simp_all

lemma query_not_connected:
  "agent self = None \<Longrightarrow>
   query self q = (Raised (Exn RuntimeError ''Client not connected. Call connect() first.''), self)"
  by (simp add: query_def)

lemma query_greeting:
  "agent self = Some ag \<Longrightarrow> strip (lower q) \<in> greetings \<Longrightarrow>
   query self q = (Returned (Success greeting_response []), self)"
  by (simp add: query_def)

lemma query_raised:
  "agent self = Some ag \<Longrightarrow> strip (lower q) \<notin> greetings \<Longrightarrow>
   ag (build_messages self q) = AStream chunks (Some e) \<Longrightarrow>
   query self q = query_failed e self"
  by (simp add: query_def)

lemma query_completed:
  "agent self = Some ag \<Longrightarrow> strip (lower q) \<notin> greetings \<Longrightarrow>
   ag (build_messages self q) = AStream chunks None \<Longrightarrow>
   consume (verbose (config self)) chunks ([], []) = (final_messages, steps) \<Longrightarrow>
   query self q =
     (Returned (Success (extract_response final_messages) steps),
      self\<lparr>memory := map_option (save_context q (extract_response final_messages)) (memory self)\<rparr>)"
  by (simp add: query_def Let_def)

section \<open>The greeting fast path\<close>

text \<open>
  C10: on a connected client, every input whose stripped, lower-cased text is one of the
  greeting tokens gets the canned success response with an empty step trace, and the
  client is left as it was. The agent does not occur in the result: whatever its stream
  would do, it is not asked.
\<close>

theorem greeting_fast_path:
  assumes "agent self = Some ag" and "strip (lower q) \<in> greetings"
  shows "query self q = (Returned (Success greeting_response []), self)
    \<and> status (Success greeting_response []) = success
    \<and> intermediate_steps (Success greeting_response []) = []"
  using assms by (simp add: query_def)

theorem greeting_fast_path_witness:
  "query (connected sample_config (failing (Exn OtherException ''asked''))) ''hi''
     = (Returned (Success greeting_response []),
        connected sample_config (failing (Exn OtherException ''asked'')))
   \<and> query (connected sample_config (failing (Exn OtherException ''asked''))) ''Hello''
     = (Returned (Success greeting_response []),
        connected sample_config (failing (Exn OtherException ''asked'')))
   \<and> query (connected sample_config (failing (Exn OtherException ''asked''))) ''  HEY  ''
     = (Returned (Success greeting_response []),
        connected sample_config (failing (Exn OtherException ''asked'')))"
proof -
  let ?c = "connected sample_config (failing (Exn OtherException ''asked''))"
  have a: "agent ?c = Some (failing (Exn OtherException ''asked''))"
    by (simp add: connected_def)
  have g: "strip (lower ''hi'') \<in> greetings" "strip (lower ''Hello'') \<in> greetings"
    "strip (lower ''  HEY  '') \<in> greetings"
    by (simp_all add: sample_texts_lower greetings_def)
  show ?thesis
    using greeting_fast_path [OF a g(1)] greeting_fast_path [OF a g(2)]
      greeting_fast_path [OF a g(3)]
    by simp
qed

section \<open>The answer when logging is off\<close>

text \<open>
  C6: on a connected client whose configuration has \<open>verbose\<close> off, a query that is not
  a greeting and whose stream ends without raising returns status success with the empty
  string as response and the empty list of steps, whatever chunks the stream yielded:
  messages and tool results are accumulated inside the verbose branch only.
\<close>

theorem quiet_query_is_empty:
  assumes "agent self = Some ag" and "strip (lower q) \<notin> greetings"
    and "\<not> verbose (config self)"
    and "ag (build_messages self q) = AStream chunks None"
  shows "fst (query self q) = Returned (Success '''' [])"
  using assms by (simp add: query_def consume_quiet extract_response_def)

theorem quiet_query_is_empty_witness:
  "fst (query (connected (sample_config\<lparr>verbose := False\<rparr>) (replay last_wins_chunks))
     ''what time is it'') = Returned (Success '''' [])"
proof -
  let ?c = "connected (sample_config\<lparr>verbose := False\<rparr>) (replay last_wins_chunks)"
  have a: "agent ?c = Some (replay last_wins_chunks)"
    by (simp add: connected_def)
  have v: "\<not> verbose (config ?c)"
    by (simp add: connected_def)
  have s: "replay last_wins_chunks (build_messages ?c ''what time is it'')
      = AStream last_wins_chunks None"
    by (simp add: replay_def)
  show ?thesis
    using quiet_query_is_empty [OF a sample_text_not_greeting v s] .
qed

section \<open>Failures\<close>

text \<open>
  C1, as the code has it: before \<open>connect\<close> has set the agent, \<open>query\<close> raises
  \<open>RuntimeError\<close> to its caller and leaves the client untouched; on a connected client,
  when the stream ends or raises an exception of class \<open>Exception\<close>, \<open>query\<close> returns
  a result, and a raising stream gives the error result whose message is
  \<open>Query failed:\<close> followed by the exception's text, the client unchanged.
\<close>

theorem query_failure_paths:
  "(agent self = None \<longrightarrow>
      query self q
        = (Raised (Exn RuntimeError ''Client not connected. Call connect() first.''), self))
   \<and> (agent self = Some ag \<longrightarrow>
        (case raised (ag (build_messages self q)) of None \<Rightarrow> True | Some e \<Rightarrow> is_Exception e) \<longrightarrow>
        (\<exists>r. fst (query self q) = Returned r)
        \<and> (\<forall>e. strip (lower q) \<notin> greetings \<and> raised (ag (build_messages self q)) = Some e \<longrightarrow>
              query self q = (Returned (Error (''Query failed: '' @ str e)), self)))"
proof (intro conjI impI)
  assume "agent self = None"
  then show "query self q
      = (Raised (Exn RuntimeError ''Client not connected. Call connect() first.''), self)"
    by (rule query_not_connected)
next
  assume a: "agent self = Some ag"
    and ok: "case raised (ag (build_messages self q)) of None \<Rightarrow> True | Some e \<Rightarrow> is_Exception e"
  obtain chunks exc where st: "ag (build_messages self q) = AStream chunks exc"
    by (cases "ag (build_messages self q)")
  show "\<exists>r. fst (query self q) = Returned r"
  proof (cases "strip (lower q) \<in> greetings")
    case True
    with a show ?thesis by (simp add: query_greeting)
  next
    case False
    show ?thesis
    proof (cases exc)
      case None
      obtain fm steps where "consume (verbose (config self)) chunks ([], []) = (fm, steps)"
        by (cases "consume (verbose (config self)) chunks ([], [])")
      with a False st None show ?thesis
        by (simp add: query_completed)
    next
      case (Some e)
      with ok st have "is_Exception e" by simp
      with a False st Some show ?thesis
        by (simp add: query_raised query_failed_def)
    qed
  qed
next
  assume a: "agent self = Some ag"
    and ok: "case raised (ag (build_messages self q)) of None \<Rightarrow> True | Some e \<Rightarrow> is_Exception e"
  show "\<forall>e. strip (lower q) \<notin> greetings \<and> raised (ag (build_messages self q)) = Some e \<longrightarrow>
      query self q = (Returned (Error (''Query failed: '' @ str e)), self)"
  proof (intro allI impI)
    fix e
    assume h: "strip (lower q) \<notin> greetings \<and> raised (ag (build_messages self q)) = Some e"
    obtain chunks exc where st: "ag (build_messages self q) = AStream chunks exc"
      by (cases "ag (build_messages self q)")
    with h have exc: "exc = Some e" by simp
    from ok h have "is_Exception e" by simp
    with a h st exc show "query self q = (Returned (Error (''Query failed: '' @ str e)), self)"
      by (simp add: query_raised query_failed_def)
  qed
qed

theorem query_failure_paths_witness:
  "query (init sample_config) ''what time is it''
     = (Raised (Exn RuntimeError ''Client not connected. Call connect() first.''),
        init sample_config)
   \<and> query (connected sample_config (failing (Exn TimeoutError ''timed out''))) ''what time is it''
     = (Returned (Error ''Query failed: timed out''),
        connected sample_config (failing (Exn TimeoutError ''timed out'')))"
proof -
  let ?c = "connected sample_config (failing (Exn TimeoutError ''timed out''))"
  have n: "agent (init sample_config) = None"
    by (simp add: init_def)
  have a: "agent ?c = Some (failing (Exn TimeoutError ''timed out''))"
    by (simp add: connected_def)
  have r: "raised (failing (Exn TimeoutError ''timed out'') (build_messages ?c ''what time is it''))
      = Some (Exn TimeoutError ''timed out'')"
    by (simp add: failing_def)
  have ok: "case raised (failing (Exn TimeoutError ''timed out'')
      (build_messages ?c ''what time is it'')) of None \<Rightarrow> True | Some e \<Rightarrow> is_Exception e"
    by (simp add: failing_def)
  from query_failure_paths [where self = "init sample_config" and q = "''what time is it''"] n
  have p1: "query (init sample_config) ''what time is it''
     = (Raised (Exn RuntimeError ''Client not connected. Call connect() first.''),
        init sample_config)"
    by blast
  from query_failure_paths [where self = ?c and q = "''what time is it''"
      and ag = "failing (Exn TimeoutError ''timed out'')"]
    a ok sample_text_not_greeting r
  have p2: "query ?c ''what time is it''
      = (Returned (Error (''Query failed: '' @ str (Exn TimeoutError ''timed out''))), ?c)"
    by blast
  from p1 p2 show ?thesis by simp
qed

text \<open>
  The claim as stated fails before \<open>connect\<close>: the guard on the agent stands outside
  the \<open>try\<close>, so the exception reaches the caller.
\<close>

theorem query_before_connect_raises:
  "fst (query (init sample_config) ''what time is it'')
     = Raised (Exn RuntimeError ''Client not connected. Call connect() first.'')"
  by (simp add: query_def init_def)

lemma query_state_cases:
  assumes "query self q = (out, self')"
  shows "self' = self
    \<or> (\<exists>resp steps. out = Returned (Success resp steps)
          \<and> self' = self\<lparr>memory := map_option (save_context q resp) (memory self)\<rparr>)"
  using assms
  by (auto simp: query_def query_failed_def Let_def
      split: option.splits astream.splits if_splits prod.splits)

text \<open>
  C5: when \<open>query\<close> returns an error result, the client, and so its memory, is the one
  it was called on; and when the memory after a returning call differs from the memory
  before, the result is a success and the memory is the old one with the query and the
  response saved.
\<close>

theorem failed_query_keeps_memory:
  assumes "query self q = (Returned r, self')"
  shows "(status r = error \<longrightarrow> memory self' = memory self \<and> self' = self)
    \<and> (memory self' \<noteq> memory self \<longrightarrow>
          status r = success
          \<and> memory self' = map_option (save_context q (response r)) (memory self))"
  using query_state_cases [OF assms] by auto

theorem failed_query_keeps_memory_witness:
  "fst (query (with_history (connected sample_config (failing (Exn TimeoutError ''timed out''))))
      ''what time is it'') = Returned (Error ''Query failed: timed out'')
   \<and> memory (snd (query
        (with_history (connected sample_config (failing (Exn TimeoutError ''timed out''))))
        ''what time is it''))
     = Some \<lparr>capacity = 8,
         exchanges = [Exchange user ''2+2?'', Exchange assistant ''4'']\<rparr>"
proof -
  let ?c = "with_history (connected sample_config (failing (Exn TimeoutError ''timed out'')))"
  have a: "agent ?c = Some (failing (Exn TimeoutError ''timed out''))"
    by (simp add: connected_def with_history_def)
  have s: "failing (Exn TimeoutError ''timed out'') (build_messages ?c ''what time is it'')
      = AStream [] (Some (Exn TimeoutError ''timed out''))"
    by (simp add: failing_def)
  have q: "query ?c ''what time is it''
      = (Returned (Error ''Query failed: timed out''), snd (query ?c ''what time is it''))"
    by (simp add: query_raised [OF a sample_text_not_greeting s] query_failed_def)
  have m: "memory ?c = Some \<lparr>capacity = 8,
      exchanges = [Exchange user ''2+2?'', Exchange assistant ''4'']\<rparr>"
    by (simp add: with_history_def connected_def sample_config_def)
  from failed_query_keeps_memory [OF q] q m show ?thesis by simp
qed

section \<open>A stream without events\<close>

text \<open>
  C4, as the code has it: on a connected client, a query that is not a greeting and whose
  stream ends without having yielded a chunk returns status success with the empty string
  as response and no steps, and the query and the empty response are saved to memory.
\<close>

theorem empty_stream_is_success:
  assumes "agent self = Some ag" and "strip (lower q) \<notin> greetings"
    and "ag (build_messages self q) = AStream [] None"
  shows "query self q
    = (Returned (Success '''' []),
       self\<lparr>memory := map_option (save_context q '''') (memory self)\<rparr>)"
  using query_completed [OF assms, of "[]" "[]"] by (simp add: extract_response_def)

theorem empty_stream_is_success_witness:
  "query (connected sample_config (replay [])) ''what time is it''
     = (Returned (Success '''' []),
        (connected sample_config (replay []))
          \<lparr>memory := map_option (save_context ''what time is it'' '''')
             (memory (connected sample_config (replay [])))\<rparr>)"
proof -
  let ?c = "connected sample_config (replay [])"
  have a: "agent ?c = Some (replay [])"
    by (simp add: connected_def)
  have s: "replay [] (build_messages ?c ''what time is it'') = AStream [] None"
    by (simp add: replay_def)
  show ?thesis
    using empty_stream_is_success [OF a sample_text_not_greeting s] .
qed

text \<open>The claim as stated fails: no error is reported for a stream without events.\<close>

theorem empty_stream_not_an_error:
  "map_option status (returned (fst (query (connected sample_config (replay []))
      ''what time is it''))) = Some success
   \<and> map_option response (returned (fst (query (connected sample_config (replay []))
      ''what time is it''))) = Some ''''"
proof -
  let ?c = "connected sample_config (replay [])"
  have a: "agent ?c = Some (replay [])"
    by (simp add: connected_def)
  have s: "replay [] (build_messages ?c ''what time is it'') = AStream [] None"
    by (simp add: replay_def)
  have c: "consume (verbose (config ?c)) [] ([], []) = ([], [])"
    by simp
  show ?thesis
    by (simp add: query_completed [OF a sample_text_not_greeting s c] extract_response_def)
qed

section \<open>Aggregation of the stream\<close>

lemma agent_is_no_tools_node: "\<not> startswith ''agent'' ''tools''"
  by (simp add: startswith_def)

lemma tool_steps_entries:
  "tool_steps ms = map (\<lambda>(n, c). Step n (take 200 c)) (tool_messages ms)"
  by (induction ms rule: tool_messages.induct) simp_all

lemma process_node_acc:
  "process_node item (fm, st)
     = (fm @ node_events item, st @ map (\<lambda>(n, c). Step n (take 200 c)) (node_results item))"
  by (cases item) (simp add: agent_is_no_tools_node tool_steps_entries)

lemma process_chunk_acc:
  "process_chunk items (fm, st)
     = (fm @ concat (map node_events items),
        st @ map (\<lambda>(n, c). Step n (take 200 c)) (concat (map node_results items)))"
  by (induction items arbitrary: fm st) (simp_all add: process_node_acc)

lemma consume_acc:
  "consume True chunks (fm, st)
     = (fm @ events chunks, st @ map (\<lambda>(n, c). Step n (take 200 c)) (tool_results chunks))"
  by (induction chunks arbitrary: fm st)
    (simp_all add: process_chunk_acc events_def tool_results_def)

lemma consume_verbose:
  "consume True chunks ([], [])
     = (events chunks, map (\<lambda>(n, c). Step n (take 200 c)) (tool_results chunks))"
  by (simp add: consume_acc)

lemma final_texts_append: "final_texts (xs @ ys) = final_texts xs @ final_texts ys"
  by (induction xs rule: final_texts.induct) simp_all

lemma last_ai_text_rev:
  "last_ai_text (rev ms) = (if final_texts ms = [] then '''' else last (final_texts ms))"
proof (induction ms rule: rev_induct)
  case Nil
  show ?case by simp
next
  case (snoc m ms)
  show ?case
  proof (cases m)
    case (HumanMessage c)
    with snoc show ?thesis by (simp add: final_texts_append)
  next
    case (AIMessage c tcs)
    with snoc show ?thesis by (simp add: final_texts_append)
  next
    case (ToolMessage n c)
    with snoc show ?thesis by (simp add: final_texts_append)
  qed
qed

lemma query_verbose:
  assumes "agent self = Some ag" and "strip (lower q) \<notin> greetings"
    and "verbose (config self)"
    and "ag (build_messages self q) = AStream chunks None"
  shows "fst (query self q)
    = Returned (Success (extract_response (events chunks))
        (map (\<lambda>(n, c). Step n (take 200 c)) (tool_results chunks)))"
proof -
  have "consume (verbose (config self)) chunks ([], [])
      = (events chunks, map (\<lambda>(n, c). Step n (take 200 c)) (tool_results chunks))"
    using assms(3) by (simp add: consume_verbose)
  from query_completed [OF assms(1,2,4) this] show ?thesis by simp
qed

text \<open>
  C2, as the code has it: on a connected client with \<open>verbose\<close> on, for a query that is
  not a greeting and whose stream ends without raising, the text of the latest agent turn
  that requests no tool is the response whenever that text is not empty; when it is empty
  the response is the content of the last event of the stream, and the text of an earlier
  turn is not used. The stream of an agent turn A, a tool result and an agent turn B,
  neither turn requesting a tool, is aggregated to B.
\<close>

theorem last_agent_turn_wins:
  assumes "agent self = Some ag" and "strip (lower q) \<notin> greetings"
    and "verbose (config self)"
    and "ag (build_messages self q) = AStream chunks None"
    and "final_texts (events chunks) \<noteq> []"
  shows "map_option response (returned (fst (query self q)))
      = Some (if last (final_texts (events chunks)) \<noteq> ''''
              then last (final_texts (events chunks))
              else content (last (events chunks)))
    \<and> extract_response [AIMessage a [], ToolMessage n x, AIMessage b []] = b"
proof -
  from assms(5) have ne: "events chunks \<noteq> []"
    by auto
  have lt: "last_ai_text (rev (events chunks)) = last (final_texts (events chunks))"
    using assms(5) by (simp add: last_ai_text_rev)
  have "extract_response (events chunks)
      = (if last (final_texts (events chunks)) \<noteq> ''''
         then last (final_texts (events chunks))
         else content (last (events chunks)))"
    using ne by (simp add: extract_response_def lt)
  moreover have "extract_response [AIMessage a [], ToolMessage n x, AIMessage b []] = b"
    by (simp add: extract_response_def)
  ultimately show ?thesis
    by (simp add: query_verbose [OF assms(1-4)])
qed

theorem last_agent_turn_wins_witness:
  "map_option response (returned (fst (query (connected sample_config (replay last_wins_chunks))
      ''what time is it''))) = Some ''B''
   \<and> map_option response (returned (fst (query
        (connected sample_config (replay empty_turn_then_tool_chunks)) ''what time is it'')))
     = Some ''12:00''"
proof -
  let ?c = "connected sample_config (replay last_wins_chunks)"
  let ?d = "connected sample_config (replay empty_turn_then_tool_chunks)"
  have a: "agent ?c = Some (replay last_wins_chunks)"
    by (simp add: connected_def)
  have v: "verbose (config ?c)"
    by (simp add: connected_def sample_config_def)
  have s: "replay last_wins_chunks (build_messages ?c ''what time is it'')
      = AStream last_wins_chunks None"
    by (simp add: replay_def)
  have e: "events last_wins_chunks
      = [AIMessage ''A'' [], ToolMessage ''get_time'' ''12:00'', AIMessage ''B'' []]"
    by (simp add: events_def last_wins_chunks_def startswith_def)
  have t: "final_texts (events last_wins_chunks) \<noteq> []"
    by (simp add: e)
  have a': "agent ?d = Some (replay empty_turn_then_tool_chunks)"
    by (simp add: connected_def)
  have v': "verbose (config ?d)"
    by (simp add: connected_def sample_config_def)
  have s': "replay empty_turn_then_tool_chunks (build_messages ?d ''what time is it'')
      = AStream empty_turn_then_tool_chunks None"
    by (simp add: replay_def)
  have e': "events empty_turn_then_tool_chunks
      = [AIMessage ''A'' [], AIMessage '''' [], ToolMessage ''get_time'' ''12:00'']"
    by (simp add: events_def empty_turn_then_tool_chunks_def startswith_def)
  have t': "final_texts (events empty_turn_then_tool_chunks) \<noteq> []"
    by (simp add: e')
  from last_agent_turn_wins [OF a sample_text_not_greeting v s t]
  have p1: "map_option response (returned (fst (query ?c ''what time is it''))) = Some ''B''"
    by (simp add: e)
  from last_agent_turn_wins [OF a' sample_text_not_greeting v' s' t']
  have p2: "map_option response (returned (fst (query ?d ''what time is it'')))
      = Some ''12:00''"
    by (simp add: e')
  from p1 p2 show ?thesis by simp
qed

text \<open>
  The claim as stated fails when the latest agent turn without tool requests has an empty
  text: the earlier text A is not taken, the last message's content is.
\<close>

theorem earlier_turn_not_taken:
  "final_texts (events empty_last_turn_chunks) = [''A'', '''']
   \<and> map_option response (returned (fst (query
        (connected sample_config (replay empty_last_turn_chunks)) ''what time is it'')))
     = Some ''''"
proof -
  let ?c = "connected sample_config (replay empty_last_turn_chunks)"
  have a: "agent ?c = Some (replay empty_last_turn_chunks)"
    by (simp add: connected_def)
  have v: "verbose (config ?c)"
    by (simp add: connected_def sample_config_def)
  have s: "replay empty_last_turn_chunks (build_messages ?c ''what time is it'')
      = AStream empty_last_turn_chunks None"
    by (simp add: replay_def)
  have e: "events empty_last_turn_chunks
      = [AIMessage ''A'' [], ToolMessage ''get_time'' ''12:00'', AIMessage '''' []]"
    by (simp add: events_def empty_last_turn_chunks_def startswith_def)
  show ?thesis
    by (simp add: query_verbose [OF a sample_text_not_greeting v s] e extract_response_def)
qed

text \<open>
  C3, as the code has it: on a connected client with \<open>verbose\<close> on, for a query that is
  not a greeting and whose stream ends without raising after at least one event, if no
  agent turn without tool requests has a non-empty text then the response is the content
  of the last event, in full: for a stream that ends in a tool result, the result's whole
  content, which the 200-character preview of the trace equals only when the content has
  at most 200 characters.
\<close>

theorem fallback_is_last_content:
  assumes "agent self = Some ag" and "strip (lower q) \<notin> greetings"
    and "verbose (config self)"
    and "ag (build_messages self q) = AStream chunks None"
    and "events chunks \<noteq> []"
    and "\<forall>t \<in> set (final_texts (events chunks)). t = ''''"
  shows "map_option response (returned (fst (query self q)))
    = Some (content (last (events chunks)))"
proof -
  have "last_ai_text (rev (events chunks)) = ''''"
    using assms(6) by (simp add: last_ai_text_rev)
  with assms(5) have "extract_response (events chunks) = content (last (events chunks))"
    by (simp add: extract_response_def)
  then show ?thesis
    by (simp add: query_verbose [OF assms(1-4)])
qed

theorem fallback_is_last_content_witness:
  "map_option response (returned (fst (query (connected sample_config (replay tool_last_chunks))
      ''what time is it''))) = Some ''12:00''"
proof -
  let ?c = "connected sample_config (replay tool_last_chunks)"
  have a: "agent ?c = Some (replay tool_last_chunks)"
    by (simp add: connected_def)
  have v: "verbose (config ?c)"
    by (simp add: connected_def sample_config_def)
  have s: "replay tool_last_chunks (build_messages ?c ''what time is it'')
      = AStream tool_last_chunks None"
    by (simp add: replay_def)
  have e: "events tool_last_chunks
      = [AIMessage '''' [ToolCall ''get_time'' ''{}''], ToolMessage ''get_time'' ''12:00'']"
    by (simp add: events_def tool_last_chunks_def startswith_def)
  have n: "events tool_last_chunks \<noteq> []"
    by (simp add: e)
  have t: "\<forall>t \<in> set (final_texts (events tool_last_chunks)). t = ''''"
    by (simp add: e)
  from fallback_is_last_content [OF a sample_text_not_greeting v s n t] show ?thesis
    by (simp add: e)
qed

text \<open>
  The claim as stated fails for a tool result of 201 characters: the response is the whole
  result, the preview in the trace its first 200 characters.
\<close>

theorem fallback_is_not_the_preview:
  "map_option response (returned (fst (query (connected sample_config (replay long_result_chunks))
      ''what time is it''))) = Some (replicate 201 (CHR ''x''))
   \<and> map_option intermediate_steps (returned (fst (query
        (connected sample_config (replay long_result_chunks)) ''what time is it'')))
     = Some [Step ''web_search'' (replicate 200 (CHR ''x''))]"
proof -
  let ?c = "connected sample_config (replay long_result_chunks)"
  have a: "agent ?c = Some (replay long_result_chunks)"
    by (simp add: connected_def)
  have v: "verbose (config ?c)"
    by (simp add: connected_def sample_config_def)
  have s: "replay long_result_chunks (build_messages ?c ''what time is it'')
      = AStream long_result_chunks None"
    by (simp add: replay_def)
  have e: "events long_result_chunks = [ToolMessage ''web_search'' (replicate 201 (CHR ''x''))]"
    by (simp add: events_def long_result_chunks_def startswith_def)
  have r: "tool_results long_result_chunks = [(''web_search'', replicate 201 (CHR ''x''))]"
    by (simp add: tool_results_def long_result_chunks_def startswith_def)
  show ?thesis
    by (simp add: query_verbose [OF a sample_text_not_greeting v s] e r extract_response_def)
qed

section \<open>The step trace\<close>

text \<open>
  C7, as the code has it: on a connected client with \<open>verbose\<close> on, for a query that is
  not a greeting and whose stream ends without raising, the trace has one entry per tool
  message of the \<open>tools\<close> nodes, in stream order, holding the tool's name and the first
  200 characters of its result and nothing else. A result of at most 200 characters is
  stored whole; of a longer one exactly 200 characters are stored, so its full value is
  not in the trace, and no marker is added.
\<close>

theorem trace_holds_prefixes:
  assumes "agent self = Some ag" and "strip (lower q) \<notin> greetings"
    and "verbose (config self)"
    and "ag (build_messages self q) = AStream chunks None"
  shows "map_option intermediate_steps (returned (fst (query self q)))
      = Some (map (\<lambda>(n, c). Step n (take 200 c)) (tool_results chunks))
    \<and> (\<forall>(n, c) \<in> set (tool_results chunks).
          (length c \<le> 200 \<longrightarrow> take 200 c = c)
          \<and> (200 < length c \<longrightarrow> length (take 200 c) = 200 \<and> take 200 c \<noteq> c))"
proof -
  have "200 < length c \<Longrightarrow> take 200 c \<noteq> c" for c :: string
  proof
    assume "200 < length c" and "take 200 c = c"
    then have "length (take 200 c) = length c" by simp
    with \<open>200 < length c\<close> show False by simp
  qed
  then show ?thesis
    by (auto simp: query_verbose [OF assms])
qed

theorem trace_holds_prefixes_witness:
  "map_option intermediate_steps (returned (fst (query
      (connected sample_config (replay last_wins_chunks)) ''what time is it'')))
     = Some [Step ''get_time'' ''12:00'']"
proof -
  let ?c = "connected sample_config (replay last_wins_chunks)"
  have a: "agent ?c = Some (replay last_wins_chunks)"
    by (simp add: connected_def)
  have v: "verbose (config ?c)"
    by (simp add: connected_def sample_config_def)
  have s: "replay last_wins_chunks (build_messages ?c ''what time is it'')
      = AStream last_wins_chunks None"
    by (simp add: replay_def)
  have r: "tool_results last_wins_chunks = [(''get_time'', ''12:00'')]"
    by (simp add: tool_results_def last_wins_chunks_def startswith_def)
  from trace_holds_prefixes [OF a sample_text_not_greeting v s] show ?thesis
    by (simp add: r)
qed

text \<open>
  The claim as stated fails for a tool result of 201 characters: its entry in the trace is
  the first 200 characters and no marker follows them.
\<close>

theorem trace_entry_has_no_marker:
  "map_option (map result \<circ> intermediate_steps) (returned (fst (query
      (connected sample_config (replay long_result_chunks)) ''what time is it'')))
     = Some [take 200 (replicate 201 (CHR ''x''))]
   \<and> length (take 200 (replicate 201 (CHR ''x''))) = 200"
proof -
  let ?c = "connected sample_config (replay long_result_chunks)"
  have a: "agent ?c = Some (replay long_result_chunks)"
    by (simp add: connected_def)
  have v: "verbose (config ?c)"
    by (simp add: connected_def sample_config_def)
  have s: "replay long_result_chunks (build_messages ?c ''what time is it'')
      = AStream long_result_chunks None"
    by (simp add: replay_def)
  have r: "tool_results long_result_chunks = [(''web_search'', replicate 201 (CHR ''x''))]"
    by (simp add: tool_results_def long_result_chunks_def startswith_def)
  show ?thesis
    by (simp add: query_verbose [OF a sample_text_not_greeting v s] r)
qed

section \<open>Connecting\<close>

lemma connect_returned:
  assumes "connect env self = (Returned u, self')"
  shows "\<exists>ts a. mcp_get_tools env = Inr ts \<and> build_agent env ts = Inr a
    \<and> self' = self\<lparr>llm_base := Some (groq_model (config self)),
         memory := Some (new_memory (memory_window_size (config self))),
         mcp := Some (mcp_url (config self)),
         tools := ts, llm := Some (groq_model (config self)), agent := Some a\<rparr>"
  using assms
  by (auto simp: connect_def connect_try_def Let_def
      split: if_splits option.splits sum.splits)

text \<open>
  C8, as the code has it: \<open>connect\<close> has no guard for a client that is connected
  already. Every call that returns has fetched the tool catalog, built the agent and
  replaced the memory by a fresh empty one, whatever the client held before; calling it
  again at once, in the same environment, returns the same client.
\<close>

theorem connect_starts_afresh:
  assumes "connect env self = (Returned u, self')"
  shows "(\<exists>ts a. mcp_get_tools env = Inr ts \<and> build_agent env ts = Inr a
      \<and> tools self' = ts \<and> agent self' = Some a)
    \<and> memory self' = Some (new_memory (memory_window_size (config self)))
    \<and> config self' = config self
    \<and> connect env self' = (Returned u, self')"
proof -
  from connect_returned [OF assms] obtain ts a where
    t: "mcp_get_tools env = Inr ts" and b: "build_agent env ts = Inr a"
    and s: "self' = self\<lparr>llm_base := Some (groq_model (config self)),
         memory := Some (new_memory (memory_window_size (config self))),
         mcp := Some (mcp_url (config self)),
         tools := ts, llm := Some (groq_model (config self)), agent := Some a\<rparr>"
    by blast
  have k: "groq_api_key (config self) \<noteq> ''''" and st: "mcp_start env = None"
    using assms
    by (auto simp: connect_def connect_try_def Let_def
        split: if_splits option.splits sum.splits)
  have "connect env self' = (Returned (), self')"
    by (simp add: connect_def connect_try_def Let_def s t b k st)
  with t b s show ?thesis by simp
qed

theorem connect_starts_afresh_witness:
  "connect (sample_env (replay last_wins_chunks)) (init sample_config)
     = (Returned (), connected sample_config (replay last_wins_chunks))
   \<and> connect (sample_env (replay last_wins_chunks))
       (connected sample_config (replay last_wins_chunks))
     = (Returned (), connected sample_config (replay last_wins_chunks))"
proof -
  have c: "connect (sample_env (replay last_wins_chunks)) (init sample_config)
      = (Returned (), connected sample_config (replay last_wins_chunks))"
    by (simp add: connect_def connect_try_def build_agent_def sample_env_def init_def
        connected_def sample_config_def Let_def)
  from connect_starts_afresh [OF c] c show ?thesis by simp
qed

lemma sample_query_answered:
  "query (connected sample_config (replay last_wins_chunks)) ''what time is it''
     = (Returned (Success ''B'' [Step ''get_time'' ''12:00'']),
        (connected sample_config (replay last_wins_chunks))
          \<lparr>memory := Some \<lparr>capacity = 8,
             exchanges = [Exchange user ''what time is it'', Exchange assistant ''B'']\<rparr>\<rparr>)"
proof -
  let ?c = "connected sample_config (replay last_wins_chunks)"
  have a: "agent ?c = Some (replay last_wins_chunks)"
    by (simp add: connected_def)
  have s: "replay last_wins_chunks (build_messages ?c ''what time is it'')
      = AStream last_wins_chunks None"
    by (simp add: replay_def)
  have e: "events last_wins_chunks
      = [AIMessage ''A'' [], ToolMessage ''get_time'' ''12:00'', AIMessage ''B'' []]"
    by (simp add: events_def last_wins_chunks_def startswith_def)
  have r: "tool_results last_wins_chunks = [(''get_time'', ''12:00'')]"
    by (simp add: tool_results_def last_wins_chunks_def startswith_def)
  have c: "consume (verbose (config ?c)) last_wins_chunks ([], [])
      = (events last_wins_chunks, [Step ''get_time'' ''12:00''])"
    by (simp add: connected_def sample_config_def consume_verbose r)
  have x: "extract_response (events last_wins_chunks) = ''B''"
    by (simp add: e extract_response_def)
  have m: "map_option (save_context ''what time is it'' ''B'') (memory ?c)
      = Some \<lparr>capacity = 8,
          exchanges = [Exchange user ''what time is it'', Exchange assistant ''B'']\<rparr>"
    by (simp add: connected_def sample_config_def new_memory_def save_context_def append_def)
  show ?thesis
    by (simp add: query_completed [OF a sample_text_not_greeting s c] x m)
qed

lemma sample_connect:
  "connect (sample_env (replay last_wins_chunks)) (init sample_config)
     = (Returned (), connected sample_config (replay last_wins_chunks))"
  by (simp add: connect_def connect_try_def build_agent_def sample_env_def init_def
      connected_def sample_config_def Let_def)

text \<open>
  The claim as stated fails: after \<open>connect\<close> and one answered question the memory
  holds the question and the answer, and a second \<open>connect\<close> leaves it empty.
\<close>

theorem second_connect_clears_memory:
  "map_option exchanges (memory (snd (query
      (snd (connect (sample_env (replay last_wins_chunks)) (init sample_config)))
      ''what time is it'')))
     = Some [Exchange user ''what time is it'', Exchange assistant ''B'']
   \<and> map_option exchanges (memory (snd (connect (sample_env (replay last_wins_chunks))
        (snd (query
          (snd (connect (sample_env (replay last_wins_chunks)) (init sample_config)))
          ''what time is it'')))))
     = Some []"
  by (simp add: sample_connect sample_query_answered)
    (simp add: connect_def connect_try_def build_agent_def sample_env_def
      connected_def sample_config_def new_memory_def Let_def)

section \<open>The memory window\<close>

lemma recent_recent_append: "recent k (recent k xs @ ys) = recent k (xs @ ys)"
  by (cases "length xs \<le> k") (simp_all add: recent_def add.commute)

lemma length_recent: "length (recent k xs) = min k (length xs)"
  by (simp add: recent_def)

lemma save_context_window:
  assumes "0 \<le> capacity m" and "even (length (exchanges m))"
    and "int (length (exchanges m)) \<le> 2 * capacity m"
  shows "save_context inp outp m
    = m\<lparr>exchanges := recent (nat (2 * capacity m))
          (exchanges m @ [Exchange user inp, Exchange assistant outp])\<rparr>"
proof (cases "int (length (exchanges m)) = 2 * capacity m")
  case True
  then have k: "nat (2 * capacity m) = length (exchanges m)" by simp
  show ?thesis
  proof (cases "exchanges m = []")
    case True
    with \<open>int (length (exchanges m)) = 2 * capacity m\<close> have "capacity m = 0" by simp
    with True show ?thesis
      by (simp add: save_context_def append_def recent_def)
  next
    case False
    then have "length (exchanges m) \<noteq> 0" by simp
    with assms(2) have n: "2 \<le> length (exchanges m)"
      by presburger
    have a1: "append (Exchange user inp) m
        = m\<lparr>exchanges := drop 2 (exchanges m) @ [Exchange user inp]\<rparr>"
      using True n by (simp add: append_def Let_def)
    have "int (length (drop 2 (exchanges m) @ [Exchange user inp, Exchange assistant outp]))
        = 2 * capacity m"
      using True n by simp
    then have a2: "append (Exchange assistant outp)
          (m\<lparr>exchanges := drop 2 (exchanges m) @ [Exchange user inp]\<rparr>)
        = m\<lparr>exchanges := drop 2 (exchanges m) @ [Exchange user inp, Exchange assistant outp]\<rparr>"
      by (simp add: append_def Let_def)
    have "recent (nat (2 * capacity m))
          (exchanges m @ [Exchange user inp, Exchange assistant outp])
        = drop 2 (exchanges m) @ [Exchange user inp, Exchange assistant outp]"
      using n by (simp add: recent_def k)
    with a1 a2 show ?thesis
      by (simp add: save_context_def)
  qed
next
  case False
  with assms have "int (length (exchanges m)) + 2 \<le> 2 * capacity m"
    by presburger
  then show ?thesis
    by (simp add: save_context_def append_def recent_def Let_def)
qed

lemma query_memory_step:
  assumes "memory self = Some m"
  shows "(transcript self [q] = [] \<and> memory (snd (query self q)) = Some m)
    \<or> (\<exists>resp. transcript self [q] = [Exchange user q, Exchange assistant resp]
          \<and> memory (snd (query self q)) = Some (save_context q resp m))"
  using assms
  by (auto simp: query_def query_failed_def Let_def
      split: option.splits astream.splits if_splits prod.splits)

lemma window_run:
  assumes "memory self = Some m" and "capacity m = W" and "0 \<le> W"
    and "even (length H)" and "exchanges m = recent (nat (2 * W)) H"
  shows "\<exists>m'. memory (queries self qs) = Some m' \<and> capacity m' = W
    \<and> exchanges m' = recent (nat (2 * W)) (H @ transcript self qs)"
  using assms
proof (induction qs arbitrary: self m H)
  case Nil
  then show ?case by simp
next
  case (Cons q qs)
  let ?s = "snd (query self q)"
  let ?T = "transcript self [q]"
  have ev: "even (length (exchanges m))"
    using Cons.prems(3,4,5) by (simp add: length_recent nat_mult_distrib min_def)
  have le: "int (length (exchanges m)) \<le> 2 * capacity m"
    using Cons.prems(2,3,5) by (simp add: length_recent)
  have "\<exists>m1. memory ?s = Some m1 \<and> capacity m1 = W \<and> even (length (H @ ?T))
      \<and> exchanges m1 = recent (nat (2 * W)) (H @ ?T)"
  proof -
    from query_memory_step [OF Cons.prems(1), of q] show ?thesis
    proof (elim disjE exE conjE)
      assume "?T = []" and "memory ?s = Some m"
      with Cons.prems show ?thesis by simp
    next
      fix resp
      assume t: "?T = [Exchange user q, Exchange assistant resp]"
        and ms: "memory ?s = Some (save_context q resp m)"
      have "save_context q resp m
          = m\<lparr>exchanges := recent (nat (2 * capacity m))
              (exchanges m @ [Exchange user q, Exchange assistant resp])\<rparr>"
        using Cons.prems(2,3) ev le by (intro save_context_window) simp_all
      with Cons.prems(2,4,5) t ms show ?thesis
        by (simp add: recent_recent_append)
    qed
  qed
  then obtain m1 where m1: "memory ?s = Some m1" "capacity m1 = W"
      "even (length (H @ ?T))" "exchanges m1 = recent (nat (2 * W)) (H @ ?T)"
    by blast
  have tc: "transcript self (q # qs) = ?T @ transcript ?s qs"
    by simp
  have qc: "queries self (q # qs) = queries ?s qs"
    by simp
  from Cons.IH [OF m1(1,2) Cons.prems(3) m1(3,4)]
  show ?case
    unfolding tc qc by (simp only: append_assoc)
qed

lemma connect_memory:
  assumes "connect env self = (Returned u, self')"
  shows "memory self' = Some (new_memory (memory_window_size (config self)))"
  using assms
  by (auto simp: connect_def connect_try_def Let_def
      split: if_splits option.splits sum.splits)

lemma query_replay:
  assumes "agent c = Some (replay chunks)" and "strip (lower q) \<notin> greetings"
    and "verbose (config c)"
  shows "query c q
    = (Returned (Success (extract_response (events chunks))
         (map (\<lambda>(n, c). Step n (take 200 c)) (tool_results chunks))),
       c\<lparr>memory := map_option (save_context q (extract_response (events chunks))) (memory c)\<rparr>)"
proof -
  have s: "replay chunks (build_messages c q) = AStream chunks None"
    by (simp add: replay_def)
  have k: "consume (verbose (config c)) chunks ([], [])
      = (events chunks, map (\<lambda>(n, c). Step n (take 200 c)) (tool_results chunks))"
    using assms(3) by (simp add: consume_verbose)
  from query_completed [OF assms(1,2) s k] show ?thesis .
qed

lemma last_wins_response: "extract_response (events last_wins_chunks) = ''B''"
  by (simp add: events_def last_wins_chunks_def startswith_def extract_response_def)

lemma small_window_transcript:
  "transcript (connected (sample_config\<lparr>memory_window_size := 1\<rparr>) (replay last_wins_chunks))
      [''what time is it'', ''and now'']
     = [Exchange user ''what time is it'', Exchange assistant ''B'',
        Exchange user ''and now'', Exchange assistant ''B'']"
proof -
  let ?c = "connected (sample_config\<lparr>memory_window_size := 1\<rparr>) (replay last_wins_chunks)"
  have g: "strip (lower ''and now'') \<notin> greetings"
    by (simp add: sample_texts_more greetings_def)
  have a: "agent ?c = Some (replay last_wins_chunks)" and v: "verbose (config ?c)"
    by (simp_all add: connected_def sample_config_def)
  note q1 = query_replay [OF a sample_text_not_greeting v]
  let ?c1 = "snd (query ?c ''what time is it'')"
  have a1: "agent ?c1 = Some (replay last_wins_chunks)" and v1: "verbose (config ?c1)"
    by (simp_all add: q1 a v)
  note q2 = query_replay [OF a1 g v1]
  show ?thesis
    by (simp add: q2 g) (simp add: q1 sample_text_not_greeting last_wins_response)
qed

text \<open>
  C9: for every window size \<open>W\<close> (a size: not negative), after \<open>connect\<close> and any run
  of calls to \<open>query\<close> the memory holds at most \<open>2 * W\<close> exchanges, and they are the
  most recent \<open>2 * W\<close> of the exchanges saved during the run, in order: the oldest are the
  ones discarded. Calls that fail or greet save nothing, so the bound holds after every
  run, and after every run of successful calls in particular.
\<close>

theorem memory_window_invariant:
  assumes "connect env self0 = (Returned u, self)"
    and "0 \<le> memory_window_size (config self0)"
  shows "\<exists>m. memory (queries self qs) = Some m
    \<and> int (length (exchanges m)) \<le> 2 * memory_window_size (config self0)
    \<and> exchanges m = recent (nat (2 * memory_window_size (config self0))) (transcript self qs)"
proof -
  let ?W = "memory_window_size (config self0)"
  have m: "memory self = Some (new_memory ?W)"
    using assms(1) by (rule connect_memory)
  have "\<exists>m'. memory (queries self qs) = Some m' \<and> capacity m' = ?W
      \<and> exchanges m' = recent (nat (2 * ?W)) ([] @ transcript self qs)"
    using assms(2) by (intro window_run [OF m]) (simp_all add: new_memory_def recent_def)
  then obtain m' where m': "memory (queries self qs) = Some m'"
      "exchanges m' = recent (nat (2 * ?W)) (transcript self qs)"
    by auto
  have "int (length (exchanges m')) \<le> 2 * ?W"
    using assms(2) by (simp add: m'(2) length_recent)
  with m' show ?thesis by simp
qed

theorem memory_window_invariant_witness:
  "map_option exchanges (memory (queries
      (connected (sample_config\<lparr>memory_window_size := 1\<rparr>) (replay last_wins_chunks))
      [''what time is it'', ''and now'']))
     = Some [Exchange user ''and now'', Exchange assistant ''B'']"
proof -
  let ?cfg = "sample_config\<lparr>memory_window_size := 1\<rparr>"
  let ?c = "connected ?cfg (replay last_wins_chunks)"
  have c: "connect (sample_env (replay last_wins_chunks)) (init ?cfg) = (Returned (), ?c)"
    by (simp add: connect_def connect_try_def build_agent_def sample_env_def init_def
        connected_def sample_config_def Let_def)
  have w: "0 \<le> memory_window_size (config (init ?cfg))"
    by (simp add: init_def)
  have k: "memory_window_size (config (init ?cfg)) = 1"
    by (simp add: init_def)
  from memory_window_invariant [OF c w, of "[''what time is it'', ''and now'']"]
  obtain m where m: "memory (queries ?c [''what time is it'', ''and now'']) = Some m"
    and x: "exchanges m = recent (nat (2 * memory_window_size (config (init ?cfg))))
      (transcript ?c [''what time is it'', ''and now''])"
    by blast
  have "exchanges m = [Exchange user ''and now'', Exchange assistant ''B'']"
    unfolding x k small_window_transcript by (simp add: recent_def)
  then show ?thesis
    unfolding m by simp
qed

end
